theory Spec2Isabelle
  imports Main "HOL-Library.Word" "HOL-Library.Multiset"
begin

section \<open>The journal client of go-systemd: \<^verbatim>\<open>journal/send.go\<close>\<close>

text \<open>
  A shallow embedding of \<^verbatim>\<open>src/journal/send.go\<close>. A Go \<^verbatim>\<open>string\<close> and a
  \<^verbatim>\<open>[]byte\<close> are sequences of 8-bit bytes; both are \<^typ>\<open>string\<close> here, whose
  characters are exactly the 256 byte values.

  Everything the file reaches outside itself is explicit:
  \<^item> the answers of the kernel and of the Go library to the calls that \<^verbatim>\<open>Send\<close> makes
    are the fields of the record \<open>env\<close>;
  \<^item> whatever \<^verbatim>\<open>Send\<close> does to the outside world is an \<open>event\<close>; a run returns the
    list of its events, oldest first, next to its result;
  \<^item> a run-time panic is the \<open>Inl\<close> branch of the result;
  \<^item> the package variable \<^verbatim>\<open>conn\<close> is the first argument of \<open>Enabled\<close> and \<open>Send\<close>;
  \<^item> the Go map \<^verbatim>\<open>vars\<close> is given as the list of its entries in the order in which
    the \<^verbatim>\<open>range\<close> statement of this call visits them. Go leaves that order
    unspecified and varies it from one loop to the next.
\<close>

subsection \<open>Data\<close>

definition nl :: char where
  "nl = CHR 0x0A"

datatype panic = IndexOutOfRange

text \<open>
  Error values. Of an error the code looks at two things: its dynamic type, through the
  two type assertions of \<^verbatim>\<open>isSocketSpaceError\<close>, and the text of its \<^verbatim>\<open>Error()\<close>
  method. \<open>OpError inner s\<close> is a \<^verbatim>\<open>*net.OpError\<close> whose field \<^verbatim>\<open>Err\<close> is \<open>inner\<close> and
  whose text is \<open>s\<close>; \<open>ErrorString s\<close> is any other error, with text \<open>s\<close>
  (\<^verbatim>\<open>errors.New(s)\<close> among them).
\<close>

datatype inner_error = Errno nat | OtherInner

datatype go_error = OpError inner_error string | ErrorString string

fun error_text :: "go_error \<Rightarrow> string" where
  "error_text (OpError _ s) = s"
| "error_text (ErrorString s) = s"

text \<open>The two values of \<^verbatim>\<open>syscall.Errno\<close> the code names (Linux numbering).\<close>

definition EMSGSIZE :: nat where
  "EMSGSIZE = 90"

definition ENOBUFS :: nat where
  "ENOBUFS = 105"

text \<open>\<^verbatim>\<open>type Priority int\<close> with its eight constants (lines 16 to 27).\<close>

type_synonym Priority = int

definition PriEmerg :: Priority where "PriEmerg = 0"
definition PriAlert :: Priority where "PriAlert = 1"
definition PriCrit :: Priority where "PriCrit = 2"
definition PriErr :: Priority where "PriErr = 3"
definition PriWarning :: Priority where "PriWarning = 4"
definition PriNotice :: Priority where "PriNotice = 5"
definition PriInfo :: Priority where "PriInfo = 6"
definition PriDebug :: Priority where "PriDebug = 7"

text \<open>
  The dynamic type of a non-nil \<^verbatim>\<open>conn\<close>: the assertion \<^verbatim>\<open>conn.(*net.UnixConn)\<close> of
  line 69 succeeds on \<open>UnixConn\<close> only. \<^verbatim>\<open>conn == nil\<close> is \<open>None\<close>.
\<close>

datatype conn_kind = UnixConn | OtherConn

text \<open>
  What a run does to the outside world:
  \<^item> \<open>Stderr s\<close>: the bytes \<open>s\<close> are written to \<^verbatim>\<open>os.Stderr\<close>;
  \<^item> \<open>ConnWrite p\<close>: \<^verbatim>\<open>conn.Write(p)\<close> is called, one datagram with body \<open>p\<close>;
  \<^item> \<open>TempFile\<close>: \<^verbatim>\<open>ioutil.TempFile("/dev/shm/", "journal.XXXXX")\<close> is called;
  \<^item> \<open>Unlink fd\<close>: \<^verbatim>\<open>syscall.Unlink\<close> is called on the name of the file with descriptor \<open>fd\<close>;
  \<^item> \<open>FileWrite fd p\<close>: \<^verbatim>\<open>file.Write(p)\<close> is called on that file;
  \<^item> \<open>WriteMsgUnix p fds\<close>: \<^verbatim>\<open>unixConn.WriteMsgUnix(p, syscall.UnixRights(fds...), nil)\<close>
    is called.
\<close>

datatype event =
    Stderr string
  | ConnWrite string
  | TempFile
  | Unlink nat
  | FileWrite nat string
  | WriteMsgUnix string "nat list"

text \<open>
  The answers of the outside world. A \<^verbatim>\<open>Write\<close> answers with the number of bytes it
  took and an error or \<^verbatim>\<open>nil\<close>; \<^verbatim>\<open>ioutil.TempFile\<close> with an error or a new file,
  known by its descriptor. The answers of \<^verbatim>\<open>syscall.Unlink\<close> and of
  \<^verbatim>\<open>WriteMsgUnix\<close> are part of the record although the code never reads them
  (lines 138 and 73).
\<close>

record env =
  conn_write :: "string \<Rightarrow> nat \<times> go_error option"
  temp_file :: "go_error + nat"
  unlink :: "go_error option"
  file_write :: "string \<Rightarrow> nat \<times> go_error option"
  write_msg :: "go_error option"

subsection \<open>The diagnostic reporter (lines 145 to 149)\<close>

text \<open>\<^verbatim>\<open>fmt.Fprintln\<close> writes its argument and a newline.\<close>

definition journalError :: "string \<Rightarrow> event list \<Rightarrow> go_error \<times> event list" where
  "journalError s t =
     (let s' = ''journal error: '' @ s
      in (ErrorString s', t @ [Stderr (s' @ [nl])]))"

subsection \<open>The connection handle (lines 29 to 41)\<close>

text \<open>
  \<open>init\<close> takes the answer of \<^verbatim>\<open>net.Dial("unixgram", "/run/systemd/journal/socket")\<close>,
  which on an error returns a nil connection, and yields the value of \<^verbatim>\<open>conn\<close>.
\<close>

definition init :: "go_error + conn_kind \<Rightarrow> conn_kind option \<times> event list" where
  "init dial =
     (case dial of
        Inl err \<Rightarrow> (None, snd (journalError (error_text err) []))
      | Inr c \<Rightarrow> (Some c, []))"

definition Enabled :: "conn_kind option \<Rightarrow> bool" where
  "Enabled conn = (conn \<noteq> None)"

subsection \<open>The field encoder (lines 80 to 131)\<close>

text \<open>
  \<^verbatim>\<open>validVarName\<close> (lines 99 to 109). \<^verbatim>\<open>name[0]\<close> is a byte and panics on the empty
  string. The loop ranges over the runes of the name. In Go \<^verbatim>\<open>&&\<close> binds tighter than
  \<^verbatim>\<open>||\<close>, so line 106 reads
  \<^verbatim>\<open>valid = (valid && 'A' <= c && c <= 'Z') || ('0' <= c && c <= '9') || c == '_'\<close>.
  The loop here runs over the bytes: a byte below 128 is a rune of its own, and a rune
  that takes several bytes (or the replacement rune of a malformed sequence) is, like
  each of its bytes, outside the three classes, so it sets \<^verbatim>\<open>valid\<close> to false as every
  one of its bytes does.
\<close>

fun validVarName_loop :: "bool \<Rightarrow> string \<Rightarrow> bool" where
  "validVarName_loop valid [] = valid"
| "validVarName_loop valid (c # cs) =
     validVarName_loop
       ((valid \<and> (of_char (CHR ''A'') \<le> (of_char c :: nat) \<and> (of_char c :: nat) \<le> of_char (CHR ''Z'')))
        \<or> (of_char (CHR ''0'') \<le> (of_char c :: nat) \<and> (of_char c :: nat) \<le> of_char (CHR ''9''))
        \<or> c = CHR ''_'')
       cs"

definition validVarName :: "string \<Rightarrow> panic + bool" where
  "validVarName name =
     (case name of
        [] \<Rightarrow> Inl IndexOutOfRange
      | c0 # _ \<Rightarrow> Inr (validVarName_loop (True \<and> c0 \<noteq> CHR ''_'') name))"

text \<open>
  \<^verbatim>\<open>toBytes\<close> (lines 125 to 131): \<^verbatim>\<open>byte(x)\<close> keeps the low 8 bits of \<open>x\<close>, as
  \<open>char_of\<close> does.
\<close>

definition toBytes :: "64 word \<Rightarrow> string" where
  "toBytes n =
     fold (\<lambda>i b. b[i := char_of (unat (drop_bit (i * 8) n))]) [0..<8] (replicate 8 (CHR 0x00))"

text \<open>
  \<^verbatim>\<open>appendVariable\<close> (lines 80 to 97), on a \<^verbatim>\<open>bytes.Buffer\<close> with contents \<open>w\<close>,
  whose \<^verbatim>\<open>Write\<close> appends and never fails. \<^verbatim>\<open>len(value)\<close> is an \<^verbatim>\<open>int\<close>, converted
  to \<^verbatim>\<open>uint64\<close>.
\<close>

definition appendVariable ::
  "string \<Rightarrow> string \<Rightarrow> string \<Rightarrow> event list \<Rightarrow> (panic + string) \<times> event list" where
  "appendVariable w name value t =
     (case validVarName name of
        Inl p \<Rightarrow> (Inl p, t)
      | Inr ok \<Rightarrow>
          (let t' = (if \<not> ok
                     then snd (journalError ''variable name contains invalid character, ignoring'' t)
                     else t)
           in if nl \<in> set value
              then (Inr (w @ (name @ [nl]) @ toBytes (of_nat (length value)) @ (value @ [nl])), t')
              else (Inr (w @ (name @ ''='' @ value @ [nl])), t')))"

text \<open>
  \<^verbatim>\<open>strconv.Itoa\<close> of the Go library: the decimal digits, after a minus sign for a
  negative number. A Go \<^verbatim>\<open>int\<close> is an integer of 64 bits, and every one of them is
  an \<^typ>\<open>int\<close>.
\<close>

fun decimal :: "nat \<Rightarrow> string" where
  "decimal n =
     (if n < 10 then [char_of (48 + n)]
      else decimal (n div 10) @ [char_of (48 + n mod 10)])"

declare decimal.simps [simp del]

definition Itoa :: "int \<Rightarrow> string" where
  "Itoa i = (if i < 0 then CHR ''-'' # decimal (nat (- i)) else decimal (nat i))"

subsection \<open>The entry encoder (lines 48 to 53 of \<^verbatim>\<open>Send\<close>)\<close>

text \<open>
  The loop of lines 51 to 53 over the entries of the map, in the order \<open>vars\<close> gives
  them. A panic ends the run with the events so far.
\<close>

fun rangeVars ::
  "string \<Rightarrow> (string \<times> string) list \<Rightarrow> event list \<Rightarrow> (panic + string) \<times> event list" where
  "rangeVars w [] t = (Inr w, t)"
| "rangeVars w ((k, v) # kvs) t =
     (case appendVariable w k v t of
        (Inl p, t') \<Rightarrow> (Inl p, t')
      | (Inr w', t') \<Rightarrow> rangeVars w' kvs t')"

definition encodeEntry ::
  "string \<Rightarrow> Priority \<Rightarrow> (string \<times> string) list \<Rightarrow> event list \<Rightarrow> (panic + string) \<times> event list" where
  "encodeEntry message priority vars t =
     (case appendVariable [] ''PRIORITY'' (Itoa priority) t of
        (Inl p, t1) \<Rightarrow> (Inl p, t1)
      | (Inr d1, t1) \<Rightarrow>
          (case appendVariable d1 ''MESSAGE'' message t1 of
             (Inl p, t2) \<Rightarrow> (Inl p, t2)
           | (Inr d2, t2) \<Rightarrow> rangeVars d2 vars t2))"

subsection \<open>The transport (lines 55 to 77 of \<^verbatim>\<open>Send\<close>, and its helpers)\<close>

text \<open>\<^verbatim>\<open>isSocketSpaceError\<close> (lines 111 to 123): two type assertions, then the test.\<close>

fun isSocketSpaceError :: "go_error \<Rightarrow> bool" where
  "isSocketSpaceError (ErrorString _) = False"
| "isSocketSpaceError (OpError OtherInner _) = False"
| "isSocketSpaceError (OpError (Errno sysErr) _) = (sysErr = EMSGSIZE \<or> sysErr = ENOBUFS)"

text \<open>
  \<^verbatim>\<open>io.Copy(dst, data)\<close> on a \<^verbatim>\<open>*bytes.Buffer\<close> is \<^verbatim>\<open>data.WriteTo(dst)\<close> of the Go
  library: an empty buffer is not written at all; otherwise the unread bytes \<open>b\<close> go to
  \<^verbatim>\<open>dst.Write\<close> in one call, the buffer drops the \<open>m\<close> bytes that the call took, and
  the outcome is the error of the call, or \<^verbatim>\<open>io.ErrShortWrite\<close> when it took fewer
  bytes than it was given. The result is the unread rest of the buffer and the error.
  (A \<^verbatim>\<open>Write\<close> takes at most the bytes it is given.)
\<close>

definition ErrShortWrite :: go_error where
  "ErrShortWrite = ErrorString ''short write''"

definition WriteTo ::
  "string \<Rightarrow> (string \<Rightarrow> nat \<times> go_error option) \<Rightarrow> (string \<Rightarrow> event) \<Rightarrow> event list
     \<Rightarrow> (string \<times> go_error option) \<times> event list" where
  "WriteTo b write ev t =
     (if b = [] then (([], None), t)
      else
        (case write b of
           (m, Some e) \<Rightarrow> ((drop m b, Some e), t @ [ev b])
         | (m, None) \<Rightarrow>
             if m \<noteq> length b then ((drop m b, Some ErrShortWrite), t @ [ev b])
             else (([], None), t @ [ev b])))"

text \<open>
  \<^verbatim>\<open>tempFd\<close> (lines 133 to 143). The result of \<^verbatim>\<open>syscall.Unlink\<close> is dropped, and the
  second test of \<^verbatim>\<open>err\<close> (line 139) reads the error of \<^verbatim>\<open>ioutil.TempFile\<close> again,
  which is nil there.
\<close>

definition tempFd :: "env \<Rightarrow> event list \<Rightarrow> (go_error + nat) \<times> event list" where
  "tempFd e t =
     (case temp_file e of
        Inl err \<Rightarrow> (Inl err, t @ [TempFile])
      | Inr file \<Rightarrow> (Inr file, t @ [TempFile, Unlink file]))"

text \<open>\<^verbatim>\<open>return journalError(s)\<close>.\<close>

definition return_journalError ::
  "string \<Rightarrow> event list \<Rightarrow> (panic + go_error option) \<times> event list" where
  "return_journalError s t = (case journalError s t of (err, t') \<Rightarrow> (Inr (Some err), t'))"

text \<open>
  \<^verbatim>\<open>Send\<close> (lines 43 to 78). The result is a panic, or the returned error
  (\<open>None\<close> is \<^verbatim>\<open>nil\<close>). After the first copy \<^verbatim>\<open>data\<close> holds what the connection did
  not take, and that is what the second copy writes to the file. The three results of
  \<^verbatim>\<open>WriteMsgUnix\<close> are dropped (line 73).
\<close>

definition Send ::
  "conn_kind option \<Rightarrow> env \<Rightarrow> string \<Rightarrow> Priority \<Rightarrow> (string \<times> string) list
     \<Rightarrow> (panic + go_error option) \<times> event list" where
  "Send conn e message priority vars =
     (case conn of
        None \<Rightarrow> return_journalError ''could not connect to journald socket'' []
      | Some c \<Rightarrow>
          (case encodeEntry message priority vars [] of
             (Inl p, t) \<Rightarrow> (Inl p, t)
           | (Inr data, t) \<Rightarrow>
               (case WriteTo data (conn_write e) ConnWrite t of
                  ((data', None), t1) \<Rightarrow> (Inr None, t1)
                | ((data', Some err), t1) \<Rightarrow>
                    if isSocketSpaceError err then
                      (case tempFd e t1 of
                         (Inl err, t2) \<Rightarrow> return_journalError (error_text err) t2
                       | (Inr file, t2) \<Rightarrow>
                           (case WriteTo data' (file_write e) (FileWrite file) t2 of
                              ((_, Some err), t3) \<Rightarrow> return_journalError (error_text err) t3
                            | ((_, None), t3) \<Rightarrow>
                                (case c of
                                   OtherConn \<Rightarrow>
                                     return_journalError
                                       ''can't send file through non-Unix connection'' t3
                                 | UnixConn \<Rightarrow> (Inr None, t3 @ [WriteMsgUnix [] [file]]))))
                    else return_journalError (error_text err) t1)))"

subsection \<open>Notions used to state the properties\<close>

text \<open>
  The bytes that one call of \<^verbatim>\<open>appendVariable\<close> appends for a name and a value
  (lines 84 to 96): the form with the length when the value has a newline, one line
  otherwise.
\<close>

definition frame :: "string \<Rightarrow> string \<Rightarrow> string" where
  "frame name value =
     (if nl \<in> set value
      then (name @ [nl]) @ toBytes (of_nat (length value)) @ (value @ [nl])
      else name @ ''='' @ value @ [nl])"

text \<open>What the call writes to the standard error stream: one line, if the name check fails.\<close>

definition name_diagnostic :: "string \<Rightarrow> event list" where
  "name_diagnostic name =
     (if validVarName name = Inr False
      then [Stderr (''journal error: variable name contains invalid character, ignoring'' @ [nl])]
      else [])"

text \<open>A sequence of bytes read as an unsigned integer, least significant byte first.\<close>

definition uint64_le :: "string \<Rightarrow> nat" where
  "uint64_le bs = foldr (\<lambda>c acc. of_char c + 256 * acc) bs 0"

text \<open>
  Two orders in which \<^verbatim>\<open>range\<close> may visit one and the same Go map: the keys of a map
  are distinct, and both lists hold the same entries.
\<close>

definition same_map :: "(string \<times> string) list \<Rightarrow> (string \<times> string) list \<Rightarrow> bool" where
  "same_map kvs kvs' =
     (distinct (map fst kvs) \<and> distinct (map fst kvs') \<and> set kvs = set kvs')"

text \<open>
  The well-formed names, in the words of the specification and of the documentation
  quoted at line 100 of the source: not empty, the first character not an underscore,
  every character one of A to Z, 0 to 9 and underscore. This definition is not taken
  from the code; the code's check is \<open>validVarName\<close>.
\<close>

definition well_formed_name :: "string \<Rightarrow> bool" where
  "well_formed_name name =
     (name \<noteq> [] \<and> hd name \<noteq> CHR ''_'' \<and>
      list_all
        (\<lambda>c.
           (of_char (CHR ''A'') \<le> (of_char c :: nat) \<and> (of_char c :: nat) \<le> of_char (CHR ''Z''))
           \<or> (of_char (CHR ''0'') \<le> (of_char c :: nat) \<and> (of_char c :: nat) \<le> of_char (CHR ''9''))
           \<or> c = CHR ''_'')
        name)"

text \<open>
  Environments for the examples. In the first every write is taken whole and
  \<^verbatim>\<open>ioutil.TempFile\<close> yields the file with descriptor 3. In the second the datagram
  is refused with the given error and no byte of it is taken, as a datagram socket does;
  the rest is as in the first.
\<close>

definition accepting_env :: env where
  "accepting_env =
     \<lparr>conn_write = (\<lambda>p. (length p, None)), temp_file = Inr 3, unlink = None,
      file_write = (\<lambda>p. (length p, None)), write_msg = None\<rparr>"

definition refusing_env :: "go_error \<Rightarrow> env" where
  "refusing_env err = accepting_env\<lparr>conn_write := (\<lambda>p. (0, Some err))\<rparr>"

text \<open>
  In the third the datagram is refused with \<^verbatim>\<open>EMSGSIZE\<close>, the staging file is
  created and written, and \<^verbatim>\<open>WriteMsgUnix\<close> fails.
\<close>

definition descriptor_lost_env :: env where
  "descriptor_lost_env =
     (refusing_env (OpError (Errno EMSGSIZE) ''write: message too long''))
       \<lparr>write_msg := Some (OpError (Errno 111) ''sendmsg: connection refused'')\<rparr>"

section \<open>Properties\<close>

subsection \<open>Auxiliary facts\<close>

lemma toBytes_eq: "toBytes n = map (\<lambda>i. char_of (unat (drop_bit (i * 8) n))) [0..<8]"
  by (simp add: toBytes_def upt_rec eval_nat_numeral)

lemma length_toBytes: "length (toBytes n) = 8"
  by (simp add: toBytes_eq)

lemma uint64_le_bytes:
  "uint64_le (map (\<lambda>i. char_of (n div 256 ^ i)) [k..<k + m]) = (n div 256 ^ k) mod 256 ^ m"
proof (induction m arbitrary: k)
  case 0
  then show ?case by (simp add: uint64_le_def)
next
  case (Suc m)
  have "[k..<k + Suc m] = k # [Suc k..<Suc k + m]"
    by (simp add: upt_rec)
  then have "uint64_le (map (\<lambda>i. char_of (n div 256 ^ i)) [k..<k + Suc m])
      = (n div 256 ^ k) mod 256 + 256 * uint64_le (map (\<lambda>i. char_of (n div 256 ^ i)) [Suc k..<Suc k + m])"
    by (simp add: uint64_le_def)
  also have "\<dots> = (n div 256 ^ k) mod 256 + 256 * ((n div 256 ^ Suc k) mod 256 ^ m)"
    by (simp only: Suc.IH)
  also have "\<dots> = (n div 256 ^ k) mod 256 ^ Suc m"
  proof -
    have "n div 256 ^ Suc k = n div 256 ^ k div 256"
      by (simp only: power_Suc2 div_mult2_eq)
    then show ?thesis
      by (simp add: mod_mult2_eq)
  qed
  finally show ?case .
qed

lemma uint64_le_toBytes: "uint64_le (toBytes w) = unat w"
proof -
  have lt: "unat w < 256 ^ 8" using unsigned_less [of w] by simp
  have sh: "unat (drop_bit (i * 8) w) = unat w div 256 ^ i" for i
  proof -
    have "(2::nat) ^ (i * 8) = 256 ^ i"
      by (simp add: mult.commute [of i 8] power_mult)
    moreover have "unat (drop_bit (i * 8) w) = drop_bit (i * 8) (unat w)"
      by (rule unat_drop_bit_eq)
    moreover have "drop_bit (i * 8) (unat w) = unat w div 2 ^ (i * 8)"
      by (rule drop_bit_eq_div)
    ultimately show ?thesis
      by simp
  qed
  have "toBytes w = map (\<lambda>i. char_of (unat w div 256 ^ i)) [0..<0 + 8]"
    by (simp only: toBytes_eq sh) simp
  then have "uint64_le (toBytes w) = (unat w div 256 ^ 0) mod 256 ^ 8"
    by (simp only: uint64_le_bytes)
  then show ?thesis using lt by simp
qed

lemma nl_decimal: "nl \<notin> set (decimal n)"
proof (induction n rule: decimal.induct)
  case (1 n)
  have d: "char_of (48 + k) \<noteq> nl" if "k < 10" for k :: nat
    using that by (simp add: nl_def char_of_eq_iff take_bit_eq_mod)
  show ?case
    apply (subst decimal.simps)
    using 1 d[of n] d[of "n mod 10"] by auto
qed

lemma nl_Itoa: "nl \<notin> set (Itoa i)"
  by (simp add: Itoa_def nl_decimal) (simp add: nl_def)

lemma snd_journalError: "snd (journalError s t) = t @ [Stderr (''journal error: '' @ s @ [nl])]"
  by (simp add: journalError_def)

lemma fst_journalError: "fst (journalError s t) = ErrorString (''journal error: '' @ s)"
  by (simp add: journalError_def)

lemma validVarName_Nil: "validVarName [] = Inl IndexOutOfRange"
  by (simp add: validVarName_def)

lemma validVarName_nonempty: "name \<noteq> [] \<Longrightarrow> \<exists>ok. validVarName name = Inr ok"
  by (cases name) (simp_all add: validVarName_def)

lemma appendVariable_Nil: "appendVariable w [] value t = (Inl IndexOutOfRange, t)"
  by (simp add: appendVariable_def validVarName_Nil)

lemma appendVariable_frame:
  assumes "name \<noteq> []"
  shows "appendVariable w name value t = (Inr (w @ frame name value), t @ name_diagnostic name)"
proof -
  from assms obtain ok where ok: "validVarName name = Inr ok"
    using validVarName_nonempty by blast
  show ?thesis
    by (cases ok) (simp_all add: appendVariable_def ok frame_def name_diagnostic_def snd_journalError)
qed

lemma rangeVars_frames:
  assumes "[] \<notin> fst ` set kvs"
  shows "rangeVars w kvs t =
    (Inr (w @ concat (map (\<lambda>(k, v). frame k v) kvs)), t @ concat (map (\<lambda>(k, v). name_diagnostic k) kvs))"
  using assms
proof (induction kvs arbitrary: w t)
  case Nil
  then show ?case by simp
next
  case (Cons kv kvs)
  obtain k v where kv: "kv = (k, v)" by (cases kv)
  from Cons.prems kv have k: "k \<noteq> []" and rest: "[] \<notin> fst ` set kvs" by auto
  show ?case
    by (simp add: kv appendVariable_frame [OF k] Cons.IH [OF rest])
qed

lemma rangeVars_panic:
  assumes "[] \<in> fst ` set kvs"
  shows "fst (rangeVars w kvs t) = Inl IndexOutOfRange"
  using assms
proof (induction kvs arbitrary: w t)
  case Nil
  then show ?case by simp
next
  case (Cons kv kvs)
  obtain k v where kv: "kv = (k, v)" by (cases kv)
  show ?case
  proof (cases "k = []")
    case True
    then show ?thesis by (simp add: kv appendVariable_Nil)
  next
    case False
    with Cons.prems kv have "[] \<in> fst ` set kvs" by auto
    then show ?thesis
      by (simp add: kv appendVariable_frame [OF False] Cons.IH)
  qed
qed

lemma valid_PRIORITY: "validVarName ''PRIORITY'' = Inr True"
  by (simp add: validVarName_def)

lemma valid_MESSAGE: "validVarName ''MESSAGE'' = Inr True"
  by (simp add: validVarName_def)

lemma encodeEntry_frames:
  assumes "[] \<notin> fst ` set vars"
  shows "encodeEntry message priority vars t =
    (Inr (frame ''PRIORITY'' (Itoa priority) @ frame ''MESSAGE'' message
            @ concat (map (\<lambda>(k, v). frame k v) vars)),
     t @ concat (map (\<lambda>(k, v). name_diagnostic k) vars))"
  by (simp add: encodeEntry_def appendVariable_frame rangeVars_frames [OF assms]
      name_diagnostic_def valid_PRIORITY valid_MESSAGE)

lemma encodeEntry_panic:
  assumes "[] \<in> fst ` set vars"
  shows "fst (encodeEntry message priority vars t) = Inl IndexOutOfRange"
  by (simp add: encodeEntry_def appendVariable_frame rangeVars_panic [OF assms])

lemma frame_PRIORITY: "frame ''PRIORITY'' (Itoa p) = ''PRIORITY='' @ Itoa p @ [nl]"
  by (simp add: frame_def nl_Itoa)

lemma frame_nonempty: "frame name value \<noteq> []"
  by (simp add: frame_def)

lemma encodeEntry_Inr:
  assumes "fst (encodeEntry message priority vars t) = Inr data"
  shows "[] \<notin> fst ` set vars" and "data \<noteq> []"
proof -
  show k: "[] \<notin> fst ` set vars"
    using assms encodeEntry_panic [of vars message priority t] by auto
  show "data \<noteq> []"
    using assms frame_nonempty [of "''PRIORITY''" "Itoa priority"]
    by (auto simp: encodeEntry_frames [OF k])
qed

lemma name_diagnostics_Stderr:
  "ev \<in> set (concat (map (\<lambda>(k, v). name_diagnostic k) vars)) \<Longrightarrow> \<exists>s. ev = Stderr s"
  by (auto simp: name_diagnostic_def split: if_splits)

text \<open>Encoding writes to the standard error stream only.\<close>

lemma appendVariable_trace:
  "set (snd (appendVariable w name value t)) \<subseteq> set t \<union> range Stderr"
  by (auto simp: appendVariable_def journalError_def split: sum.splits)

lemma rangeVars_trace:
  "set (snd (rangeVars w kvs t)) \<subseteq> set t \<union> range Stderr"
proof (induction kvs arbitrary: w t)
  case Nil
  then show ?case by simp
next
  case (Cons kv kvs)
  obtain k v where kv: "kv = (k, v)" by (cases kv)
  obtain r t' where a: "appendVariable w k v t = (r, t')"
    by (cases "appendVariable w k v t")
  have t': "set t' \<subseteq> set t \<union> range Stderr"
    using appendVariable_trace [of w k v t] a by simp
  show ?case
  proof (cases r)
    case (Inl p)
    with a t' show ?thesis by (simp add: kv)
  next
    case (Inr w')
    with a t' Cons.IH [of w' t'] show ?thesis by (auto simp: kv)
  qed
qed

lemma encodeEntry_trace:
  "set (snd (encodeEntry message priority vars [])) \<subseteq> range Stderr"
proof -
  obtain r1 t1 where a1: "appendVariable [] ''PRIORITY'' (Itoa priority) [] = (r1, t1)"
    by (metis surj_pair)
  have t1: "set t1 \<subseteq> range Stderr"
    using appendVariable_trace [of "[]" "''PRIORITY''" "Itoa priority" "[]"] a1 by simp
  show ?thesis
  proof (cases r1)
    case (Inl p)
    with a1 t1 show ?thesis by (simp add: encodeEntry_def)
  next
    case (Inr d1)
    obtain r2 t2 where a2: "appendVariable d1 ''MESSAGE'' message t1 = (r2, t2)"
      by (metis surj_pair)
    have t2: "set t2 \<subseteq> range Stderr"
      using appendVariable_trace [of d1 "''MESSAGE''" message t1] a2 t1 by auto
    show ?thesis
    proof (cases r2)
      case (Inl p)
      with a1 a2 t2 \<open>r1 = Inr d1\<close> show ?thesis by (simp add: encodeEntry_def)
    next
      case (Inr d2)
      with a1 a2 t2 \<open>r1 = Inr d1\<close> rangeVars_trace [of d2 vars t2] show ?thesis
        by (auto simp: encodeEntry_def)
    qed
  qed
qed

text \<open>The name check accepts every well-formed name.\<close>

lemma validVarName_loop_well_formed:
  assumes "\<forall>c \<in> set cs.
         (of_char (CHR ''A'') \<le> (of_char c :: nat) \<and> (of_char c :: nat) \<le> of_char (CHR ''Z''))
         \<or> (of_char (CHR ''0'') \<le> (of_char c :: nat) \<and> (of_char c :: nat) \<le> of_char (CHR ''9''))
         \<or> c = CHR ''_''"
  shows "validVarName_loop True cs"
  using assms by (induction cs) simp_all

lemma validVarName_accepts_well_formed:
  assumes "well_formed_name name"
  shows "validVarName name = Inr True"
proof -
  from assms obtain c cs where n: "name = c # cs" and c: "c \<noteq> CHR ''_''"
    by (cases name) (auto simp: well_formed_name_def)
  from assms have "validVarName_loop True name"
    by (intro validVarName_loop_well_formed) (simp add: well_formed_name_def list_all_iff)
  with n c show ?thesis
    by (simp add: validVarName_def)
qed

text \<open>Decimal text of the two priorities of the examples.\<close>

lemma Itoa_3: "Itoa 3 = ''3''"
  by (simp add: Itoa_def decimal.simps char_of_eq_iff take_bit_eq_mod)

lemma Itoa_6: "Itoa 6 = ''6''"
  by (simp add: Itoa_def decimal.simps char_of_eq_iff take_bit_eq_mod)

text \<open>Two visiting orders of one map hold the same entries, each once.\<close>

lemma same_map_mset:
  assumes "same_map vars vars'"
  shows "mset vars = mset vars'"
proof -
  from assms have "distinct vars" and "distinct vars'" and "set vars = set vars'"
    by (auto simp: same_map_def distinct_map)
  then show ?thesis
    by (simp add: set_eq_iff_mset_eq_distinct)
qed

lemma length_concat_mset:
  assumes "mset xss = mset yss"
  shows "length (concat xss) = length (concat yss)"
proof -
  have "mset (map length xss) = mset (map length yss)"
    using assms by (metis mset_map)
  then have "sum_list (map length xss) = sum_list (map length yss)"
    by (metis sum_mset_sum_list)
  then show ?thesis by (simp add: length_concat)
qed

text \<open>The transport, once the entry is encoded.\<close>

lemma isSocketSpaceError_iff:
  "isSocketSpaceError err \<longleftrightarrow>
     (\<exists>s. err = OpError (Errno EMSGSIZE) s \<or> err = OpError (Errno ENOBUFS) s)"
  by (cases err rule: isSocketSpaceError.cases) auto

lemma Send_accepted:
  assumes "encodeEntry message priority vars [] = (Inr data, t0)"
    and "conn_write e data = (length data, None)"
  shows "Send (Some c) e message priority vars = (Inr None, t0 @ [ConnWrite data])"
proof -
  have "data \<noteq> []"
    using encodeEntry_Inr(2) [of message priority vars "[]" data] assms(1) by simp
  then show ?thesis
    by (simp add: Send_def assms WriteTo_def)
qed

lemma Send_space_error:
  assumes "encodeEntry message priority vars [] = (Inr data, t0)"
    and "conn_write e data = (m, Some err)" and "isSocketSpaceError err"
  shows "\<exists>r rest. Send (Some c) e message priority vars =
            (r, t0 @ [ConnWrite data, TempFile] @ rest)"
proof -
  have ne: "data \<noteq> []"
    using encodeEntry_Inr(2) [of message priority vars "[]" data] assms(1) by simp
  have w: "WriteTo data (conn_write e) ConnWrite t0 =
      ((drop m data, Some err), t0 @ [ConnWrite data])"
    using ne by (simp add: WriteTo_def assms(2))
  show ?thesis
  proof (cases "temp_file e")
    case (Inl terr)
    then show ?thesis
      by (simp add: Send_def assms(1,3) w tempFd_def return_journalError_def journalError_def)
  next
    case (Inr fl)
    obtain b fr t3 where fw:
      "WriteTo (drop m data) (file_write e) (FileWrite fl)
         (t0 @ [ConnWrite data, TempFile, Unlink fl]) = ((b, fr), t3)"
      by (metis surj_pair)
    have t3: "\<exists>rest. t3 = t0 @ [ConnWrite data, TempFile] @ rest"
      using fw by (auto simp: WriteTo_def split: if_splits prod.splits option.splits)
    show ?thesis
      using t3
      by (cases fr; cases c)
        (auto simp: Send_def assms(1,3) w tempFd_def Inr fw return_journalError_def
          journalError_def)
  qed
qed

text \<open>
  \<^verbatim>\<open>Send\<close> never reads what \<^verbatim>\<open>WriteMsgUnix\<close> and \<^verbatim>\<open>syscall.Unlink\<close> answer: its
  result and its events are the same whatever the two calls return.
\<close>

lemma Send_ignores_write_msg:
  "Send conn (e\<lparr>write_msg := x\<rparr>) message priority vars = Send conn e message priority vars"
  by (simp add: Send_def tempFd_def cong: option.case_cong prod.case_cong sum.case_cong if_cong)

lemma Send_ignores_unlink:
  "Send conn (e\<lparr>unlink := x\<rparr>) message priority vars = Send conn e message priority vars"
  by (simp add: Send_def tempFd_def cong: option.case_cong prod.case_cong sum.case_cong if_cong)

text \<open>
  A name that is not empty never stops an entry: the field encoder appends its frame,
  with the diagnostic if the check fails, the encoded entry holds that frame, and when
  the socket takes the datagram \<^verbatim>\<open>Send\<close> writes it and returns nil.
\<close>

lemma nonempty_name_still_sent:
  assumes "name \<noteq> []" and "(name, value) \<in> set vars" and "[] \<notin> fst ` set vars"
  shows "appendVariable w name value t = (Inr (w @ frame name value), t @ name_diagnostic name)
       \<and> (\<exists>data t0 pre post.
            encodeEntry message priority vars [] = (Inr data, t0)
            \<and> data = pre @ frame name value @ post
            \<and> set (name_diagnostic name) \<subseteq> set t0
            \<and> (conn_write e data = (length data, None) \<longrightarrow>
                 Send (Some c) e message priority vars = (Inr None, t0 @ [ConnWrite data])))"
proof -
  from assms(2) obtain ys zs where vars: "vars = ys @ (name, value) # zs"
    by (auto simp: in_set_conv_decomp)
  let ?data = "frame ''PRIORITY'' (Itoa priority) @ frame ''MESSAGE'' message
            @ concat (map (\<lambda>(k, v). frame k v) vars)"
  let ?t0 = "concat (map (\<lambda>(k, v). name_diagnostic k) vars)"
  have enc: "encodeEntry message priority vars [] = (Inr ?data, ?t0)"
    by (simp add: encodeEntry_frames [OF assms(3)])
  have split: "?data = (frame ''PRIORITY'' (Itoa priority) @ frame ''MESSAGE'' message
            @ concat (map (\<lambda>(k, v). frame k v) ys)) @ frame name value
            @ concat (map (\<lambda>(k, v). frame k v) zs)"
    by (simp add: vars)
  have diag: "set (name_diagnostic name) \<subseteq> set ?t0"
    by (auto simp: vars)
  have sent: "Send (Some c) e message priority vars = (Inr None, ?t0 @ [ConnWrite ?data])"
    if "conn_write e ?data = (length ?data, None)"
    using Send_accepted [OF enc that] .
  from enc split diag sent have
    "\<exists>data t0 pre post.
            encodeEntry message priority vars [] = (Inr data, t0)
            \<and> data = pre @ frame name value @ post
            \<and> set (name_diagnostic name) \<subseteq> set t0
            \<and> (conn_write e data = (length data, None) \<longrightarrow>
                 Send (Some c) e message priority vars = (Inr None, t0 @ [ConnWrite data]))"
    by blast
  then show ?thesis
    by (simp add: appendVariable_frame [OF assms(1)])
qed

subsection \<open>The connection handle\<close>

text \<open>
  Claim C10. When the initial dial has failed, \<^verbatim>\<open>conn\<close> is nil, \<^verbatim>\<open>Enabled()\<close> is false,
  and every call of \<^verbatim>\<open>Send\<close>, whatever its arguments and whatever the outside world
  would answer, returns the error "journal error: could not connect to journald socket".
  Its only effect is that line on the standard error stream: no write to the socket, no
  file. Nothing is encoded: the call returns also for a map with the empty name, on
  which the encoder would panic.
\<close>

theorem not_connected:
  "fst (init (Inl err)) = None
   \<and> \<not> Enabled (fst (init (Inl err)))
   \<and> Send (fst (init (Inl err))) e message priority vars =
       (Inr (Some (ErrorString ''journal error: could not connect to journald socket'')),
        [Stderr (''journal error: could not connect to journald socket'' @ [nl])])"
  by (simp add: init_def Enabled_def Send_def return_journalError_def journalError_def)

subsection \<open>The field encoder\<close>

text \<open>
  Claim C5. The name check reads \<^verbatim>\<open>name[0]\<close> of the empty name and panics with an
  index out of range. So does the field encoder on the empty name, for every buffer and
  value, before it writes anything; and so does \<^verbatim>\<open>Send\<close> on a connection whenever the
  map has the empty name among its keys, in whatever order the map is visited: the
  outcome is a panic, neither a returned error nor nil.
\<close>

theorem empty_name_panics:
  "validVarName [] = Inl IndexOutOfRange
   \<and> appendVariable w [] value t = (Inl IndexOutOfRange, t)
   \<and> ([] \<in> fst ` set vars \<longrightarrow>
        fst (Send (Some c) e message priority vars) = Inl IndexOutOfRange)"
proof -
  have "fst (Send (Some c) e message priority vars) = Inl IndexOutOfRange"
    if "[] \<in> fst ` set vars"
  proof -
    obtain r t where rt: "encodeEntry message priority vars [] = (r, t)"
      by (cases "encodeEntry message priority vars []")
    with encodeEntry_panic [OF that, of message priority "[]"] have "r = Inl IndexOutOfRange"
      by simp
    with rt show ?thesis by (simp add: Send_def)
  qed
  then show ?thesis
    by (simp add: validVarName_Nil appendVariable_Nil)
qed

theorem empty_name_panics_witness:
  "[] \<in> fst ` set [([], ''x'')]
   \<and> fst (Send (Some UnixConn) accepting_env ''m'' PriInfo [([], ''x'')]) = Inl IndexOutOfRange"
  using empty_name_panics [of "[]" "[]" "[]" "[([], ''x'')]" UnixConn accepting_env "''m''" PriInfo]
  by simp

text \<open>
  Claim C6. For a value with at least one newline the field encoder appends the name
  and a newline, then the eight bytes of \<^verbatim>\<open>toBytes\<close>, then the value and a newline;
  the eight bytes, read as an unsigned integer with the least significant byte first,
  are the length of the value in bytes. The name is not empty (on the empty name the
  encoder panics, claim C5), and the length fits 64 bits, as every Go length does.
\<close>

theorem multiline_frame:
  assumes "name \<noteq> []" and "nl \<in> set value" and "length value < 2 ^ 64"
  shows "fst (appendVariable w name value t) =
           Inr (w @ (name @ [nl]) @ toBytes (of_nat (length value)) @ (value @ [nl]))
         \<and> length (toBytes (of_nat (length value))) = 8
         \<and> uint64_le (toBytes (of_nat (length value))) = length value"
proof -
  have "unat (of_nat (length value) :: 64 word) = length value"
    using assms(3) by (simp add: unat_of_nat)
  then show ?thesis
    using assms(2)
    by (simp add: appendVariable_frame [OF assms(1)] frame_def length_toBytes uint64_le_toBytes)
qed

theorem multiline_frame_witness:
  "''MESSAGE'' \<noteq> [] \<and> nl \<in> set (''line1'' @ [nl] @ ''line2'')
   \<and> length (''line1'' @ [nl] @ ''line2'') < 2 ^ 64
   \<and> fst (appendVariable [] ''MESSAGE'' (''line1'' @ [nl] @ ''line2'') []) =
        Inr (''MESSAGE'' @ [nl]
             @ [CHR 0x0B, CHR 0x00, CHR 0x00, CHR 0x00, CHR 0x00, CHR 0x00, CHR 0x00, CHR 0x00]
             @ ''line1'' @ [nl] @ ''line2'' @ [nl])
   \<and> uint64_le (toBytes (of_nat (length (''line1'' @ [nl] @ ''line2'')))) = 11"
  using multiline_frame [of "''MESSAGE''" "''line1'' @ [nl] @ ''line2''" "[]" "[]"]
  by (simp add: toBytes_eq upt_rec char_of_eq_iff take_bit_eq_mod)

text \<open>
  Claim C3. The specification and the documentation quoted in the source (line 100) call
  a name valid exactly when it is not empty, does not begin with an underscore and has
  only the characters A to Z, 0 to 9 and underscore. The check does not compute that.
  Line 106 groups as \<^verbatim>\<open>(valid && upper) || digit || underscore\<close>, so a digit or an
  underscore sets \<^verbatim>\<open>valid\<close> to true again whatever came before: the name
  \<^verbatim>\<open>_SECRET\<close>, which begins with an underscore, and the name \<^verbatim>\<open>a_\<close>, which has a
  lower-case letter, are accepted, and the empty name panics instead of being rejected.
  (Every well-formed name is accepted: \<open>validVarName_accepts_well_formed\<close>.)
\<close>

theorem validVarName_accepts_malformed:
  "validVarName ''_SECRET'' = Inr True \<and> \<not> well_formed_name ''_SECRET''
   \<and> validVarName ''a_'' = Inr True \<and> \<not> well_formed_name ''a_''
   \<and> validVarName [] = Inl IndexOutOfRange \<and> \<not> well_formed_name []"
  by (simp add: validVarName_def well_formed_name_def)

text \<open>
  Claim C9. A name that violates the naming rules is meant to cost a diagnostic and
  nothing else: the pair is encoded like any other and the entry is sent. The code does
  so for every name that is not empty (\<open>nonempty_name_still_sent\<close>), but not for all
  names that violate the rules. The empty name violates them, and on a map with the
  empty name \<^verbatim>\<open>Send\<close> panics in the name check (line 104) before anything reaches the
  socket: no diagnostic, no datagram, no returned value. The name \<^verbatim>\<open>_SECRET\<close>, the
  example of the specification, violates them too; its entry is sent, but the check
  accepts the name (line 106) and no diagnostic is written.
\<close>

theorem malformed_name_not_always_sent:
  "\<not> well_formed_name []
   \<and> Send (Some UnixConn) accepting_env ''m'' PriInfo [([], ''x'')] = (Inl IndexOutOfRange, [])
   \<and> \<not> well_formed_name ''_SECRET''
   \<and> Send (Some UnixConn) accepting_env ''m'' PriInfo [(''_SECRET'', ''x'')] =
       (Inr None, [ConnWrite ''PRIORITY=6\<newline>MESSAGE=m\<newline>_SECRET=x\<newline>''])"
  by (simp add: well_formed_name_def Send_def encodeEntry_def appendVariable_def validVarName_def
      accepting_env_def WriteTo_def Itoa_6 nl_def PriInfo_def)

subsection \<open>The entry encoder\<close>

text \<open>
  Claim C7. For a message without a newline, every priority and every map: if the map
  has the empty name among its keys, encoding panics in the loop over the fields (claim
  C5), after \<^verbatim>\<open>PRIORITY\<close> and \<^verbatim>\<open>MESSAGE\<close> were encoded, and no buffer is handed on;
  otherwise the encoded buffer is the line \<^verbatim>\<open>PRIORITY=\<close> with the priority in decimal,
  then the line \<^verbatim>\<open>MESSAGE=\<close> with the message, then the frames of the fields of the
  caller in the order of the visit. Encoding writes at most diagnostics to the standard
  error stream, and this buffer is what \<^verbatim>\<open>Send\<close> hands to the socket as its first
  datagram. The instance below is the example of the specification: message
  "disk full", priority \<^verbatim>\<open>PriErr\<close>, one field \<^verbatim>\<open>UNIT\<close>.
\<close>

theorem entry_starts_with_priority_and_message:
  assumes "nl \<notin> set message"
  shows "([] \<in> fst ` set vars
          \<and> fst (encodeEntry message priority vars []) = Inl IndexOutOfRange)
       \<or> ([] \<notin> fst ` set vars
          \<and> (\<exists>t. encodeEntry message priority vars [] =
                 (Inr ((''PRIORITY='' @ Itoa priority @ [nl]) @ (''MESSAGE='' @ message @ [nl])
                       @ concat (map (\<lambda>(k, v). frame k v) vars)), t)
               \<and> (\<forall>ev \<in> set t. \<exists>s. ev = Stderr s)
               \<and> (\<exists>rest. snd (Send (Some c) e message priority vars) =
                     t @ ConnWrite ((''PRIORITY='' @ Itoa priority @ [nl])
                            @ (''MESSAGE='' @ message @ [nl])
                            @ concat (map (\<lambda>(k, v). frame k v) vars)) # rest)))"
proof (cases "[] \<in> fst ` set vars")
  case True
  then show ?thesis
    by (simp add: encodeEntry_panic)
next
  case False
  let ?data = "(''PRIORITY='' @ Itoa priority @ [nl]) @ (''MESSAGE='' @ message @ [nl])
                 @ concat (map (\<lambda>(k, v). frame k v) vars)"
  let ?t = "concat (map (\<lambda>(k, v). name_diagnostic k) vars)"
  have enc: "encodeEntry message priority vars [] = (Inr ?data, ?t)"
    using assms by (simp add: encodeEntry_frames [OF False] frame_def nl_Itoa)
  have st: "\<forall>ev \<in> set ?t. \<exists>s. ev = Stderr s"
    using name_diagnostics_Stderr by blast
  have ne: "?data \<noteq> []" by simp
  have "\<exists>rest. snd (Send (Some c) e message priority vars) = ?t @ ConnWrite ?data # rest"
    unfolding Send_def enc
    using ne
    by (auto simp: WriteTo_def tempFd_def return_journalError_def journalError_def
        split: prod.splits option.splits sum.splits conn_kind.splits)
  with enc st False show ?thesis by blast
qed

theorem entry_starts_with_priority_and_message_witness:
  "nl \<notin> set ''disk full'' \<and> [] \<notin> fst ` set [(''UNIT'', ''backup.service'')]
   \<and> (\<exists>t. encodeEntry ''disk full'' PriErr [(''UNIT'', ''backup.service'')] [] =
          (Inr ''PRIORITY=3\<newline>MESSAGE=disk full\<newline>UNIT=backup.service\<newline>'', t)
        \<and> (\<exists>rest. snd (Send (Some UnixConn) accepting_env ''disk full'' PriErr
                           [(''UNIT'', ''backup.service'')]) =
              t @ ConnWrite ''PRIORITY=3\<newline>MESSAGE=disk full\<newline>UNIT=backup.service\<newline>'' # rest))"
  using entry_starts_with_priority_and_message
    [of "''disk full''" "[(''UNIT'', ''backup.service'')]" PriErr UnixConn accepting_env]
  by (auto simp: nl_def Itoa_3 PriErr_def frame_def)

text \<open>
  Claim C4, as stated, fails: the buffer is not a function of the message, the priority
  and the map. The fields are encoded in the order in which \<^verbatim>\<open>range\<close> visits the map
  (line 51), and Go does not keep that order from one loop to the next. For the map with
  the entries \<^verbatim>\<open>A: 1\<close> and \<^verbatim>\<open>B: 2\<close> the two possible visits give two different
  buffers.
\<close>

theorem encoding_depends_on_range_order:
  "same_map [(''A'', ''1''), (''B'', ''2'')] [(''B'', ''2''), (''A'', ''1'')]
   \<and> fst (encodeEntry ''m'' PriInfo [(''A'', ''1''), (''B'', ''2'')] []) =
       Inr ''PRIORITY=6\<newline>MESSAGE=m\<newline>A=1\<newline>B=2\<newline>''
   \<and> fst (encodeEntry ''m'' PriInfo [(''B'', ''2''), (''A'', ''1'')] []) =
       Inr ''PRIORITY=6\<newline>MESSAGE=m\<newline>B=2\<newline>A=1\<newline>''
   \<and> fst (encodeEntry ''m'' PriInfo [(''A'', ''1''), (''B'', ''2'')] []) \<noteq>
       fst (encodeEntry ''m'' PriInfo [(''B'', ''2''), (''A'', ''1'')] [])"
  by (auto simp: same_map_def encodeEntry_frames frame_def nl_def Itoa_6 PriInfo_def)

text \<open>
  Claim C4, amended. Two encodings of the same message, priority and map agree up to
  the order of the fields of the caller: either both panic (the map has the empty name),
  or both buffers begin with the same \<^verbatim>\<open>PRIORITY\<close> and \<^verbatim>\<open>MESSAGE\<close> frames and go on
  with the frames of the same fields, each once, in the order of the respective visit;
  the two buffers have the same length, and they are equal when the two visits are.
\<close>

theorem encoding_up_to_field_order:
  assumes "same_map vars vars'"
  shows "(fst (encodeEntry message priority vars []) = Inl IndexOutOfRange
          \<and> fst (encodeEntry message priority vars' []) = Inl IndexOutOfRange)
       \<or> (\<exists>data data'.
            fst (encodeEntry message priority vars []) = Inr data
            \<and> fst (encodeEntry message priority vars' []) = Inr data'
            \<and> data = frame ''PRIORITY'' (Itoa priority) @ frame ''MESSAGE'' message
                       @ concat (map (\<lambda>(k, v). frame k v) vars)
            \<and> data' = frame ''PRIORITY'' (Itoa priority) @ frame ''MESSAGE'' message
                       @ concat (map (\<lambda>(k, v). frame k v) vars')
            \<and> mset (map (\<lambda>(k, v). frame k v) vars) = mset (map (\<lambda>(k, v). frame k v) vars')
            \<and> length data = length data'
            \<and> (vars = vars' \<longrightarrow> data = data'))"
proof (cases "[] \<in> fst ` set vars")
  case True
  moreover from assms True have "[] \<in> fst ` set vars'"
    by (simp add: same_map_def)
  ultimately show ?thesis
    by (simp add: encodeEntry_panic)
next
  case False
  moreover from assms False have k': "[] \<notin> fst ` set vars'"
    by (simp add: same_map_def)
  have m: "mset (map (\<lambda>(k, v). frame k v) vars) = mset (map (\<lambda>(k, v). frame k v) vars')"
    using same_map_mset [OF assms] by (metis mset_map)
  have "length (concat (map (\<lambda>(k, v). frame k v) vars))
      = length (concat (map (\<lambda>(k, v). frame k v) vars'))"
    by (rule length_concat_mset [OF m])
  with False k' m show ?thesis
    by (simp add: encodeEntry_frames)
qed

theorem encoding_up_to_field_order_witness:
  "same_map [(''A'', ''1''), (''B'', ''2'')] [(''B'', ''2''), (''A'', ''1'')]
   \<and> mset (map (\<lambda>(k, v). frame k v) [(''A'', ''1''), (''B'', ''2'')])
       = mset (map (\<lambda>(k, v). frame k v) [(''B'', ''2''), (''A'', ''1'')])
   \<and> length (frame ''PRIORITY'' (Itoa PriInfo) @ frame ''MESSAGE'' ''m''
               @ concat (map (\<lambda>(k, v). frame k v) [(''A'', ''1''), (''B'', ''2'')]))
       = length (frame ''PRIORITY'' (Itoa PriInfo) @ frame ''MESSAGE'' ''m''
               @ concat (map (\<lambda>(k, v). frame k v) [(''B'', ''2''), (''A'', ''1'')]))"
  using encoding_up_to_field_order
    [of "[(''A'', ''1''), (''B'', ''2'')]" "[(''B'', ''2''), (''A'', ''1'')]" "''m''" PriInfo]
  by (auto simp: same_map_def encodeEntry_frames)

subsection \<open>The transport\<close>

text \<open>
  Claim C8. On a connection, \<^verbatim>\<open>Send\<close> enters the path of the staging file (it calls
  \<^verbatim>\<open>ioutil.TempFile\<close>) if and only if the entry is encoded and the write of the
  datagram returns an error that \<^verbatim>\<open>isSocketSpaceError\<close> recognises; those are exactly
  the errors of type
  \<^verbatim>\<open>*net.OpError\<close> whose \<^verbatim>\<open>Err\<close> is the \<^verbatim>\<open>syscall.Errno\<close> \<^verbatim>\<open>EMSGSIZE\<close> or
  \<^verbatim>\<open>ENOBUFS\<close>. On every other error of the write, \<^verbatim>\<open>Send\<close> writes the error with the
  prefix to the standard error stream and returns it; the datagram was written once, and
  nothing else is done.
\<close>

theorem fallback_iff_socket_space_error:
  "(TempFile \<in> set (snd (Send (Some c) e message priority vars)) \<longleftrightarrow>
      (\<exists>data t0 err. encodeEntry message priority vars [] = (Inr data, t0)
         \<and> snd (conn_write e data) = Some err \<and> isSocketSpaceError err))
   \<and> (isSocketSpaceError err' \<longleftrightarrow>
        (\<exists>s. err' = OpError (Errno EMSGSIZE) s \<or> err' = OpError (Errno ENOBUFS) s))
   \<and> (encodeEntry message priority vars [] = (Inr data, t0)
        \<and> snd (conn_write e data) = Some err \<and> \<not> isSocketSpaceError err \<longrightarrow>
        Send (Some c) e message priority vars =
          (Inr (Some (ErrorString (''journal error: '' @ error_text err))),
           t0 @ [ConnWrite data, Stderr (''journal error: '' @ error_text err @ [nl])]))"
proof -
  obtain r t where enc: "encodeEntry message priority vars [] = (r, t)"
    by (metis surj_pair)
  have t: "TempFile \<notin> set t"
    using encodeEntry_trace [of message priority vars] enc by auto
  have iff: "TempFile \<in> set (snd (Send (Some c) e message priority vars)) \<longleftrightarrow>
      (\<exists>data t0 err. encodeEntry message priority vars [] = (Inr data, t0)
         \<and> snd (conn_write e data) = Some err \<and> isSocketSpaceError err)"
  proof (cases r)
    case (Inl p)
    with enc t show ?thesis by (simp add: Send_def)
  next
    case (Inr d)
    have ne: "d \<noteq> []"
      using encodeEntry_Inr(2) [of message priority vars "[]" d] enc Inr by simp
    obtain m cr where cw: "conn_write e d = (m, cr)"
      by (cases "conn_write e d")
    show ?thesis
    proof (cases cr)
      case None
      then show ?thesis
        using ne t
        by (simp add: Send_def enc Inr cw WriteTo_def return_journalError_def journalError_def
            ErrShortWrite_def)
    next
      case (Some werr)
      show ?thesis
      proof (cases "isSocketSpaceError werr")
        case False
        then show ?thesis
          using ne t Some
          by (simp add: Send_def enc Inr cw WriteTo_def return_journalError_def journalError_def)
      next
        case True
        have "\<exists>r rest. Send (Some c) e message priority vars =
                (r, t @ [ConnWrite d, TempFile] @ rest)"
          using Send_space_error [of message priority vars d t e m werr c] enc Inr cw Some True
          by simp
        then have "TempFile \<in> set (snd (Send (Some c) e message priority vars))"
          by auto
        with True Some cw enc Inr show ?thesis by auto
      qed
    qed
  qed
  have other: "Send (Some c) e message priority vars =
          (Inr (Some (ErrorString (''journal error: '' @ error_text err))),
           t0 @ [ConnWrite data, Stderr (''journal error: '' @ error_text err @ [nl])])"
    if e1: "encodeEntry message priority vars [] = (Inr data, t0)"
      and e2: "snd (conn_write e data) = Some err" and e3: "\<not> isSocketSpaceError err"
  proof -
    have ne: "data \<noteq> []"
      using encodeEntry_Inr(2) [of message priority vars "[]" data] e1 by simp
    obtain m where cw: "conn_write e data = (m, Some err)"
      using e2 by (cases "conn_write e data") auto
    show ?thesis
      using ne e3
      by (simp add: Send_def e1 cw WriteTo_def return_journalError_def journalError_def)
  qed
  from iff other isSocketSpaceError_iff [of err'] show ?thesis
    by blast
qed

theorem fallback_iff_socket_space_error_witness:
  "encodeEntry ''hi'' PriInfo [] [] = (Inr ''PRIORITY=6\<newline>MESSAGE=hi\<newline>'', [])
   \<and> snd (conn_write (refusing_env (OpError (Errno 111) ''write: connection refused''))
          ''PRIORITY=6\<newline>MESSAGE=hi\<newline>'')
       = Some (OpError (Errno 111) ''write: connection refused'')
   \<and> \<not> isSocketSpaceError (OpError (Errno 111) ''write: connection refused'')
   \<and> TempFile \<notin> set (snd (Send (Some UnixConn)
          (refusing_env (OpError (Errno 111) ''write: connection refused'')) ''hi'' PriInfo []))
   \<and> Send (Some UnixConn) (refusing_env (OpError (Errno 111) ''write: connection refused''))
        ''hi'' PriInfo [] =
       (Inr (Some (ErrorString ''journal error: write: connection refused'')),
        [ConnWrite ''PRIORITY=6\<newline>MESSAGE=hi\<newline>'',
         Stderr ''journal error: write: connection refused\<newline>''])"
  using fallback_iff_socket_space_error
    [of UnixConn "refusing_env (OpError (Errno 111) ''write: connection refused'')"
        "''hi''" PriInfo "[]" "OpError (Errno 111) ''write: connection refused''"
        "''PRIORITY=6\<newline>MESSAGE=hi\<newline>''" "[]"
        "OpError (Errno 111) ''write: connection refused''"]
  by (simp add: refusing_env_def accepting_env_def encodeEntry_frames frame_def nl_def Itoa_6
      PriInfo_def EMSGSIZE_def ENOBUFS_def)

text \<open>
  Claim C1. Let the write of the datagram with the encoded entry fail with an error of
  the two recognised kinds, no byte of the datagram taken (a datagram goes whole or not
  at all), and let the staging file be created. Then the next things \<^verbatim>\<open>Send\<close> does are
  to unlink the file and to write to it, in one call, the very bytes it had handed to
  the socket; it writes to no file again. When that write takes all the bytes, the file
  holds the whole entry, byte for byte, and on a Unix connection \<^verbatim>\<open>Send\<close> passes the
  descriptor of the file in an empty datagram and returns nil.
\<close>

theorem fallback_stages_whole_entry:
  assumes "encodeEntry message priority vars [] = (Inr data, t0)"
    and "conn_write e data = (0, Some err)" and "isSocketSpaceError err"
    and "temp_file e = Inr file"
  shows "(\<exists>r rest. Send (Some c) e message priority vars =
            (r, t0 @ [ConnWrite data, TempFile, Unlink file, FileWrite file data] @ rest)
            \<and> (\<forall>f p. FileWrite f p \<notin> set rest))
       \<and> (file_write e data = (length data, None) \<longrightarrow>
            Send (Some UnixConn) e message priority vars =
              (Inr None,
               t0 @ [ConnWrite data, TempFile, Unlink file, FileWrite file data,
                     WriteMsgUnix [] [file]]))"
proof -
  have ne: "data \<noteq> []"
    using encodeEntry_Inr(2) [of message priority vars "[]" data] assms(1) by simp
  obtain m r where fw: "file_write e data = (m, r)"
    by (cases "file_write e data")
  show ?thesis
    using ne
    by (cases r; cases c)
      (auto simp: Send_def assms fw WriteTo_def tempFd_def return_journalError_def journalError_def)
qed

theorem fallback_stages_whole_entry_witness:
  "encodeEntry ''hi'' PriInfo [] [] = (Inr ''PRIORITY=6\<newline>MESSAGE=hi\<newline>'', [])
   \<and> conn_write (refusing_env (OpError (Errno EMSGSIZE) ''write: message too long''))
        ''PRIORITY=6\<newline>MESSAGE=hi\<newline>''
       = (0, Some (OpError (Errno EMSGSIZE) ''write: message too long''))
   \<and> isSocketSpaceError (OpError (Errno EMSGSIZE) ''write: message too long'')
   \<and> temp_file (refusing_env (OpError (Errno EMSGSIZE) ''write: message too long'')) = Inr 3
   \<and> file_write (refusing_env (OpError (Errno EMSGSIZE) ''write: message too long''))
        ''PRIORITY=6\<newline>MESSAGE=hi\<newline>'' = (22, None)
   \<and> Send (Some UnixConn) (refusing_env (OpError (Errno EMSGSIZE) ''write: message too long''))
        ''hi'' PriInfo [] =
       (Inr None,
        [ConnWrite ''PRIORITY=6\<newline>MESSAGE=hi\<newline>'', TempFile, Unlink 3,
         FileWrite 3 ''PRIORITY=6\<newline>MESSAGE=hi\<newline>'', WriteMsgUnix [] [3]])"
  using fallback_stages_whole_entry
    [of "''hi''" PriInfo "[]" "''PRIORITY=6\<newline>MESSAGE=hi\<newline>''" "[]"
        "refusing_env (OpError (Errno EMSGSIZE) ''write: message too long'')"
        "OpError (Errno EMSGSIZE) ''write: message too long''" 3 UnixConn]
  by (simp add: refusing_env_def accepting_env_def encodeEntry_frames frame_def nl_def Itoa_6
      PriInfo_def)

text \<open>
  Claim C2. Not every failure during a send is reported and returned. In the path of
  the staging file the three results of \<^verbatim>\<open>WriteMsgUnix\<close> are dropped (line 73), while
  every other call of \<^verbatim>\<open>Send\<close> that can fail has its error tested and passed to
  \<^verbatim>\<open>journalError\<close>. In the environment below the datagram is refused with
  \<^verbatim>\<open>EMSGSIZE\<close>, the staging file is written, and passing its descriptor fails: the
  entry reaches nobody, yet \<^verbatim>\<open>Send\<close> returns nil and writes nothing to the standard
  error stream. (For every environment: \<open>Send_ignores_write_msg\<close>.)
\<close>

theorem ancillary_write_failure_unreported:
  "write_msg descriptor_lost_env = Some (OpError (Errno 111) ''sendmsg: connection refused'')
   \<and> Send (Some UnixConn) descriptor_lost_env ''hi'' PriInfo [] =
       (Inr None,
        [ConnWrite ''PRIORITY=6\<newline>MESSAGE=hi\<newline>'', TempFile, Unlink 3,
         FileWrite 3 ''PRIORITY=6\<newline>MESSAGE=hi\<newline>'', WriteMsgUnix [] [3]])"
  by (simp add: descriptor_lost_env_def refusing_env_def accepting_env_def Send_def
      encodeEntry_frames frame_def nl_def Itoa_6 PriInfo_def WriteTo_def tempFd_def EMSGSIZE_def)

end
